theory Spec2Isabelle
  imports Complex_Main "HOL-Library.Sublist" "HOL-Library.Multiset" "HOL-Library.Monad_Syntax"
begin

section \<open>Tanebi MCP server: a shallow embedding of \<open>src/index.ts\<close>\<close>

text \<open>
  The adapter turns a tool call into one HTTP request against the Tanebi API and
  formats the JSON answer as text. The model keeps the structure of the source:
  the configuration constants, \<open>apiRequest\<close>, the response interfaces, the two
  formatters and the three tool handlers.

  Modelling decisions.
  \<^item> A JavaScript string is a \<^typ>\<open>string\<close>; a line feed is written \<open>\<newline>\<close>.
  \<^item> A JavaScript number is a double. The \<open>number\<close> fields of the response
    interfaces (ids, counts, positions, page numbers) are \<^typ>\<open>int\<close>: an integer
    stands for the double of that value, and \<open>representable\<close> says that there is
    one. Fractions, \<open>NaN\<close> and the infinities do not occur in these fields. A
    number inside a JSON value is a \<^typ>\<open>rat\<close>, so that a tool argument such as
    \<open>1.5\<close> can be written down and rejected.
  \<^item> \<open>fetch\<close> is a parameter \<open>remote\<close>, a function from the request to a failure or
    a response; every request sent is appended to a log, which is the only state.
  \<^item> A thrown \<open>Error\<close> or a rejected promise is the \<open>Inl\<close> branch of a sum.
  \<^item> \<open>Array.prototype.sort\<close> works in place: \<open>formatIdeaDetail\<close> returns the text
    together with the idea as the call leaves it.
\<close>

subsection \<open>JavaScript values\<close>

datatype json =
    JNull
  | JBool bool
  | JNum rat
  | JStr string
  | JArr "json list"
  | JObj "(string \<times> json) list"

datatype error =
    ApiError string
  | NetworkError string
  | SyntaxError
  | TypeError
  | ValidationError
  | UntypedResponse

text \<open>The decimal digits of a natural number, most significant first.\<close>

fun digits :: "nat \<Rightarrow> string" where
  "digits n = (if n < 10 then [''0123456789'' ! n]
               else digits (n div 10) @ [''0123456789'' ! (n mod 10)])"

declare digits.simps [simp del]

text \<open>
  The doubles. An integer up to \<open>2^53\<close> in size is a double. A larger one of \<open>b\<close>
  bits is a double when it is a multiple of \<open>2^(b - 53)\<close>, the distance \<open>ulp\<close>
  between neighbouring doubles of that size, and lies below \<open>2^1024\<close>.
\<close>

fun bit_length :: "nat \<Rightarrow> nat" where
  "bit_length n = (if n = 0 then 0 else Suc (bit_length (n div 2)))"

declare bit_length.simps [simp del]

definition ulp :: "nat \<Rightarrow> nat" where
  "ulp x = 2 ^ (bit_length x - 53)"


text \<open>
  \<open>rounds_to x y\<close>: the integer \<open>y\<close>, read as a decimal literal, is the double \<open>x\<close>
  (for \<open>x \<ge> 2^53\<close>). That is so when \<open>y\<close> lies within half the distance to the
  next double above \<open>x\<close> and to the next one below; the one below is at half the
  distance \<open>ulp x\<close> when \<open>x\<close> is a power of two. A value halfway between two
  doubles goes to the one with the even significand \<open>x div ulp x\<close>. The bounds are
  multiplied by four to stay within the integers.
\<close>

definition rounds_to :: "nat \<Rightarrow> nat \<Rightarrow> bool" where
  "rounds_to x y =
     (let u = ulp x;
          m = x div u;
          below = (if m = 2 ^ 52 then u else 2 * u);
          above = 2 * u
      in if even m then 4 * x \<le> 4 * y + below \<and> 4 * y \<le> 4 * x + above
         else 4 * x < 4 * y + below \<and> 4 * y < 4 * x + above)"

text \<open>
  \<open>Number::toString\<close> on a positive integral double \<open>x\<close> prints the decimal number of
  the fewest significant digits that is read back as \<open>x\<close>, and of these the one
  nearest to \<open>x\<close> (of two equally near, the one whose last digit is even).
  \<open>shortest_from x t\<close> looks for it among the multiples of \<open>10^t\<close>, the two next to
  \<open>x\<close>, and goes on to \<open>10^(t - 1)\<close> when neither is read back as \<open>x\<close>. Below
  \<open>2^53\<close> every integer is a double and the number is \<open>x\<close> itself.
\<close>

fun shortest_from :: "nat \<Rightarrow> nat \<Rightarrow> nat" where
  "shortest_from x t =
     (if t = 0 then x
      else
        (let p = 10 ^ t;
             y1 = (x div p) * p;
             y2 = y1 + p
         in if rounds_to x y1 \<and> rounds_to x y2 then
              (if 2 * x < y1 + y2 then y1
               else if y1 + y2 < 2 * x then y2
               else if even (x div p) then y1 else y2)
            else if rounds_to x y1 then y1
            else if rounds_to x y2 then y2
            else shortest_from x (t - 1)))"

declare shortest_from.simps [simp del]

definition shortest_decimal :: "nat \<Rightarrow> nat" where
  "shortest_decimal x =
     (if x < 2 ^ 53 then x else shortest_from x (length (digits x) - 1))"

text \<open>
  A number of at most 21 digits is printed in full. A longer one is printed with an
  exponent: the first significant digit, then the others after a point if there are
  any, then \<open>e+\<close> and the number of digits after the first.
\<close>

definition exponent_form :: "nat \<Rightarrow> string" where
  "exponent_form y =
     (let ds = digits y;
          significant = rev (dropWhile (\<lambda>c. c = CHR ''0'') (rev ds))
      in (case significant of
            [] \<Rightarrow> []
          | d # fs \<Rightarrow> d # (if fs = [] then [] else CHR ''.'' # fs))
         @ ''e+'' @ digits (length ds - 1))"

definition positive_to_string :: "nat \<Rightarrow> string" where
  "positive_to_string x =
     (let y = shortest_decimal x
      in if y < 10 ^ 21 then digits y else exponent_form y)"

text \<open>What a template literal \<open>`${n}`\<close> prints for an integral number \<open>n\<close>.\<close>

definition number_to_string :: "int \<Rightarrow> string" where
  "number_to_string i =
     (if i < 0 then CHR ''-'' # positive_to_string (nat (- i))
      else positive_to_string (nat i))"

text \<open>\<open>Array.prototype.join\<close> on an array of strings.\<close>

fun join :: "string \<Rightarrow> string list \<Rightarrow> string" where
  "join sep [] = []"
| "join sep [x] = x"
| "join sep (x # y # ys) = x @ sep @ join sep (y # ys)"

text \<open>
  \<open>Array.prototype.sort(comparefn)\<close>: a stable sort driven by the sign of the
  comparator (ECMAScript 2019 and later). Each element is inserted in front of the
  first later element it does not compare greater than, so elements that compare
  equal keep their order.
\<close>

fun sort_insert :: "('a \<Rightarrow> 'a \<Rightarrow> int) \<Rightarrow> 'a \<Rightarrow> 'a list \<Rightarrow> 'a list" where
  "sort_insert cmp x [] = [x]"
| "sort_insert cmp x (y # ys) =
     (if cmp x y \<le> 0 then x # y # ys else y # sort_insert cmp x ys)"

definition array_sort :: "('a \<Rightarrow> 'a \<Rightarrow> int) \<Rightarrow> 'a list \<Rightarrow> 'a list" where
  "array_sort cmp xs = foldr (sort_insert cmp) xs []"

subsection \<open>Configuration\<close>

text \<open>
  \<open>s.replace(/\/+$/, "")\<close>: the leftmost position from which only slashes, and at
  least one, run to the end of the string is where the match starts; the match is
  replaced by the empty string. Without a match the string is returned as it is.
\<close>

fun replace_trailing_slashes :: "string \<Rightarrow> string" where
  "replace_trailing_slashes [] = []"
| "replace_trailing_slashes (c # cs) =
     (if c = CHR ''/'' \<and> list_all (\<lambda>d. d = CHR ''/'') cs then []
      else c # replace_trailing_slashes cs)"

definition DEFAULT_BASE_URL :: string where
  "DEFAULT_BASE_URL = ''https://tanebi.app''"

text \<open>
  \<open>process.env.TANEBI_API_BASE_URL?.replace(/\/+$/, "") || "https://tanebi.app"\<close>:
  the argument is the environment variable, \<open>None\<close> when it is unset. The empty
  string is falsy, so \<open>||\<close> falls through to the default.
\<close>

definition API_BASE_URL :: "string option \<Rightarrow> string" where
  "API_BASE_URL env =
     (case env of
        None \<Rightarrow> DEFAULT_BASE_URL
      | Some v \<Rightarrow>
          (let s = replace_trailing_slashes v
           in if s = [] then DEFAULT_BASE_URL else s))"

record config =
  api_key :: string
  base_url :: string

text \<open>
  Start-up: without a key (\<open>!API_KEY\<close>: unset or empty) the process exits with code 1,
  here \<open>None\<close>.
\<close>

definition load_config :: "string option \<Rightarrow> string option \<Rightarrow> config option" where
  "load_config key_env url_env =
     (case key_env of
        None \<Rightarrow> None
      | Some k \<Rightarrow>
          if k = [] then None
          else Some \<lparr>api_key = k, base_url = API_BASE_URL url_env\<rparr>)"

text \<open>
  The reading of the specification's words "the value with trailing slashes
  stripped", to compare \<open>API_BASE_URL\<close> with.
\<close>

definition strip_trailing_slashes_spec :: "string \<Rightarrow> string" where
  "strip_trailing_slashes_spec v = rev (dropWhile (\<lambda>c. c = CHR ''/'') (rev v))"

subsection \<open>API client\<close>

record http_request =
  url :: string
  http_method :: string
  headers :: "(string \<times> string) list"
  body :: "json option"

text \<open>
  A \<open>Response\<close>: \<open>body_text\<close> is what \<open>response.text()\<close> resolves to and \<open>body_json\<close> what
  \<open>response.json()\<close> resolves to, \<open>None\<close> when the body is not JSON and the promise
  is rejected. The request's \<open>body\<close> is the value handed to \<open>JSON.stringify\<close>.
\<close>

record http_response =
  status :: int
  statusText :: string
  body_text :: string
  body_json :: "json option"

definition ok :: "http_response \<Rightarrow> bool" where
  "ok r = (200 \<le> status r \<and> status r \<le> 299)"

record ApiRequestOptions =
  opt_method :: "string option"
  opt_body :: "(string \<times> json) list option"

type_synonym remote_api = "http_request \<Rightarrow> error + http_response"

text \<open>The arguments of the call to \<open>fetch\<close>: the URL and the \<open>method\<close>, \<open>headers\<close>, \<open>body\<close>.\<close>

definition fetch_arguments :: "config \<Rightarrow> string \<Rightarrow> ApiRequestOptions \<Rightarrow> http_request" where
  "fetch_arguments cfg path options =
     (let method = (case opt_method options of None \<Rightarrow> ''GET'' | Some m \<Rightarrow> m);
          hs = [(''X-API-Key'', api_key cfg), (''Accept'', ''application/json'')]
               @ (case opt_body options of
                    None \<Rightarrow> []
                  | Some b \<Rightarrow> [(''Content-Type'', ''application/json'')])
      in \<lparr>url = base_url cfg @ path, http_method = method, headers = hs,
          body = map_option JObj (opt_body options)\<rparr>)"

definition apiRequest ::
  "config \<Rightarrow> remote_api \<Rightarrow> string \<Rightarrow> ApiRequestOptions \<Rightarrow> http_request list
     \<Rightarrow> (error + json) \<times> http_request list" where
  "apiRequest cfg remote path options sent =
     (let req = fetch_arguments cfg path options;
          sent' = sent @ [req]
      in case remote req of
           Inl e \<Rightarrow> (Inl e, sent')
         | Inr response \<Rightarrow>
             if \<not> ok response then
               (Inl (ApiError (''API request failed: '' @ number_to_string (status response)
                      @ '' '' @ statusText response @ '' - '' @ body_text response)), sent')
             else (case body_json response of
                     None \<Rightarrow> (Inl SyntaxError, sent')
                   | Some j \<Rightarrow> (Inr j, sent')))"

subsection \<open>Response types\<close>

record SimplifiedUser =
  user_id :: int
  display_name :: string
  avatar_path :: "string option"

record IdeaSummary =
  summary_id :: int
  summary_title :: string
  summary_visibility :: string
  summary_current_stage :: string
  summary_reactions_count :: int
  summary_comments_count :: int
  summary_is_bookmarked :: bool
  summary_created_at :: string
  summary_updated_at :: string
  summary_user :: SimplifiedUser

record IdeaLine =
  line_id :: int
  line_type :: string
  content :: string
  position :: int
  comments_count :: int
  line_created_at :: string
  line_updated_at :: string

record Reaction =
  reaction_id :: int
  reaction_type :: string
  reaction_created_at :: string
  reaction_user :: SimplifiedUser

record IdeaDetail =
  detail_id :: int
  title :: string
  visibility :: string
  current_stage :: string
  reactions_count :: int
  is_bookmarked :: bool
  created_at :: string
  updated_at :: string
  user :: SimplifiedUser
  lines :: "IdeaLine list"
  reactions :: "Reaction list"

record PaginationMeta =
  current_page :: int
  total_pages :: int
  total_count :: int

record IdeasListResponse =
  ideas :: "IdeaSummary list"
  meta :: PaginationMeta

subsection \<open>Formatters\<close>

definition formatIdeaSummary :: "IdeaSummary \<Rightarrow> string" where
  "formatIdeaSummary idea =
     join ''\<newline>''
       [''[ID: '' @ number_to_string (summary_id idea) @ ''] '' @ summary_title idea,
        ''  Stage: '' @ summary_current_stage idea @ '' | Visibility: ''
          @ summary_visibility idea,
        ''  Author: '' @ display_name (summary_user idea),
        ''  Reactions: '' @ number_to_string (summary_reactions_count idea)
          @ '' | Comments: '' @ number_to_string (summary_comments_count idea),
        ''  Created: '' @ summary_created_at idea]"

text \<open>The three parts of \<open>formatIdeaDetail\<close>, named as its local constants are.\<close>

definition detail_header :: "IdeaDetail \<Rightarrow> string" where
  "detail_header idea =
     join ''\<newline>''
       [''# '' @ title idea,
        '''',
        ''ID: '' @ number_to_string (detail_id idea),
        ''Stage: '' @ current_stage idea @ '' | Visibility: '' @ visibility idea,
        ''Author: '' @ display_name (user idea),
        ''Reactions: '' @ number_to_string (reactions_count idea),
        ''Created: '' @ created_at idea @ '' | Updated: '' @ updated_at idea]"

definition compare_position :: "IdeaLine \<Rightarrow> IdeaLine \<Rightarrow> int" where
  "compare_position a b = position a - position b"

definition render_line :: "IdeaLine \<Rightarrow> string" where
  "render_line line =
     (let prefix = (if line_type line = ''heading'' then ''### '' else '''');
          commentTag = (if comments_count line > 0
                        then '' ['' @ number_to_string (comments_count line) @ '' comments]''
                        else '''')
      in prefix @ content line @ commentTag)"

text \<open>
  The content section, with the array \<open>idea.lines\<close> as the expression leaves it:
  \<open>sort\<close> reorders the receiver and returns it, \<open>map\<close> and \<open>join\<close> build new values.
\<close>

definition detail_content :: "IdeaLine list \<Rightarrow> string \<times> IdeaLine list" where
  "detail_content ls =
     (if length ls > 0 then
        (let sorted_lines = array_sort compare_position ls
         in (''\<newline>\<newline>## Content\<newline>\<newline>''
               @ join ''\<newline>\<newline>'' (map render_line sorted_lines),
             sorted_lines))
      else (''\<newline>\<newline>(No content yet)'', ls))"

definition render_reaction :: "Reaction \<Rightarrow> string" where
  "render_reaction r = ''- '' @ reaction_type r @ '' by '' @ display_name (reaction_user r)"

definition detail_reactions :: "Reaction list \<Rightarrow> string" where
  "detail_reactions rs =
     (if length rs > 0 then
        ''\<newline>\<newline>## Reactions\<newline>\<newline>'' @ join ''\<newline>'' (map render_reaction rs)
      else '''')"

text \<open>
  \<open>formatIdeaDetail\<close> returns the text and the idea object after the call: the
  object is the argument with its \<open>lines\<close> array as \<open>sort\<close> left it.
\<close>

definition formatIdeaDetail :: "IdeaDetail \<Rightarrow> string \<times> IdeaDetail" where
  "formatIdeaDetail idea =
     (let header = detail_header idea;
          (content_text, lines') = detail_content (lines idea);
          reactions_text = detail_reactions (reactions idea)
      in (header @ content_text @ reactions_text, idea\<lparr>lines := lines'\<rparr>))"

subsection \<open>Responses read at their declared interface\<close>

text \<open>
  \<open>apiRequest<T>\<close> returns the parsed body typed as \<open>T\<close> without any check at run
  time. The functions below read a JSON value at the interface the source declares
  for it. A value that does not have the declared shape is outside the typed
  contract; the handlers of the model answer \<open>UntypedResponse\<close> there, and no
  statement below depends on that branch.
\<close>

fun property :: "string \<Rightarrow> json \<Rightarrow> json option" where
  "property k (JObj kvs) = map_of kvs k"
| "property k _ = None"

fun as_number :: "json \<Rightarrow> int option" where
  "as_number (JNum q) = (if of_int \<lfloor>q\<rfloor> = q then Some \<lfloor>q\<rfloor> else None)"
| "as_number _ = None"

fun as_string :: "json \<Rightarrow> string option" where
  "as_string (JStr s) = Some s"
| "as_string _ = None"

fun as_nullable_string :: "json \<Rightarrow> string option option" where
  "as_nullable_string JNull = Some None"
| "as_nullable_string (JStr s) = Some (Some s)"
| "as_nullable_string _ = None"

fun as_boolean :: "json \<Rightarrow> bool option" where
  "as_boolean (JBool b) = Some b"
| "as_boolean _ = None"

fun as_array :: "(json \<Rightarrow> 'a option) \<Rightarrow> json \<Rightarrow> 'a list option" where
  "as_array f (JArr js) = those (map f js)"
| "as_array f _ = None"

definition as_SimplifiedUser :: "json \<Rightarrow> SimplifiedUser option" where
  "as_SimplifiedUser j = do {
     i \<leftarrow> Option.bind (property ''id'' j) as_number;
     n \<leftarrow> Option.bind (property ''display_name'' j) as_string;
     a \<leftarrow> Option.bind (property ''avatar_path'' j) as_nullable_string;
     Some \<lparr>user_id = i, display_name = n, avatar_path = a\<rparr>
   }"

definition as_IdeaSummary :: "json \<Rightarrow> IdeaSummary option" where
  "as_IdeaSummary j = do {
     i \<leftarrow> Option.bind (property ''id'' j) as_number;
     t \<leftarrow> Option.bind (property ''title'' j) as_string;
     v \<leftarrow> Option.bind (property ''visibility'' j) as_string;
     s \<leftarrow> Option.bind (property ''current_stage'' j) as_string;
     rc \<leftarrow> Option.bind (property ''reactions_count'' j) as_number;
     cc \<leftarrow> Option.bind (property ''comments_count'' j) as_number;
     b \<leftarrow> Option.bind (property ''is_bookmarked'' j) as_boolean;
     c \<leftarrow> Option.bind (property ''created_at'' j) as_string;
     u \<leftarrow> Option.bind (property ''updated_at'' j) as_string;
     w \<leftarrow> Option.bind (property ''user'' j) as_SimplifiedUser;
     Some \<lparr>summary_id = i, summary_title = t, summary_visibility = v,
           summary_current_stage = s, summary_reactions_count = rc,
           summary_comments_count = cc, summary_is_bookmarked = b,
           summary_created_at = c, summary_updated_at = u, summary_user = w\<rparr>
   }"

definition as_IdeaLine :: "json \<Rightarrow> IdeaLine option" where
  "as_IdeaLine j = do {
     i \<leftarrow> Option.bind (property ''id'' j) as_number;
     t \<leftarrow> Option.bind (property ''line_type'' j) as_string;
     c \<leftarrow> Option.bind (property ''content'' j) as_string;
     p \<leftarrow> Option.bind (property ''position'' j) as_number;
     cc \<leftarrow> Option.bind (property ''comments_count'' j) as_number;
     ca \<leftarrow> Option.bind (property ''created_at'' j) as_string;
     ua \<leftarrow> Option.bind (property ''updated_at'' j) as_string;
     Some \<lparr>line_id = i, line_type = t, content = c, position = p,
           comments_count = cc, line_created_at = ca, line_updated_at = ua\<rparr>
   }"

definition as_Reaction :: "json \<Rightarrow> Reaction option" where
  "as_Reaction j = do {
     i \<leftarrow> Option.bind (property ''id'' j) as_number;
     t \<leftarrow> Option.bind (property ''reaction_type'' j) as_string;
     c \<leftarrow> Option.bind (property ''created_at'' j) as_string;
     w \<leftarrow> Option.bind (property ''user'' j) as_SimplifiedUser;
     Some \<lparr>reaction_id = i, reaction_type = t, reaction_created_at = c,
           reaction_user = w\<rparr>
   }"

definition as_IdeaDetail :: "json \<Rightarrow> IdeaDetail option" where
  "as_IdeaDetail j = do {
     i \<leftarrow> Option.bind (property ''id'' j) as_number;
     t \<leftarrow> Option.bind (property ''title'' j) as_string;
     v \<leftarrow> Option.bind (property ''visibility'' j) as_string;
     s \<leftarrow> Option.bind (property ''current_stage'' j) as_string;
     rc \<leftarrow> Option.bind (property ''reactions_count'' j) as_number;
     b \<leftarrow> Option.bind (property ''is_bookmarked'' j) as_boolean;
     c \<leftarrow> Option.bind (property ''created_at'' j) as_string;
     u \<leftarrow> Option.bind (property ''updated_at'' j) as_string;
     w \<leftarrow> Option.bind (property ''user'' j) as_SimplifiedUser;
     ls \<leftarrow> Option.bind (property ''lines'' j) (as_array as_IdeaLine);
     rs \<leftarrow> Option.bind (property ''reactions'' j) (as_array as_Reaction);
     Some \<lparr>detail_id = i, title = t, visibility = v, current_stage = s,
           reactions_count = rc, is_bookmarked = b, created_at = c, updated_at = u,
           user = w, lines = ls, reactions = rs\<rparr>
   }"

definition as_PaginationMeta :: "json \<Rightarrow> PaginationMeta option" where
  "as_PaginationMeta j = do {
     c \<leftarrow> Option.bind (property ''current_page'' j) as_number;
     p \<leftarrow> Option.bind (property ''total_pages'' j) as_number;
     n \<leftarrow> Option.bind (property ''total_count'' j) as_number;
     Some \<lparr>current_page = c, total_pages = p, total_count = n\<rparr>
   }"

definition as_IdeasListResponse :: "json \<Rightarrow> IdeasListResponse option" where
  "as_IdeasListResponse j = do {
     xs \<leftarrow> Option.bind (property ''ideas'' j) (as_array as_IdeaSummary);
     m \<leftarrow> Option.bind (property ''meta'' j) as_PaginationMeta;
     Some \<lparr>ideas = xs, meta = m\<rparr>
   }"

text \<open>
  The JSON object that carries a value of an interface, one key for each declared
  field. These are the bodies a server sends; the statements about the handlers
  use them to say "the response is the object \<open>d\<close>".
\<close>

definition json_of_SimplifiedUser :: "SimplifiedUser \<Rightarrow> json" where
  "json_of_SimplifiedUser u =
     JObj [(''id'', JNum (of_int (user_id u))),
           (''display_name'', JStr (display_name u)),
           (''avatar_path'', case avatar_path u of None \<Rightarrow> JNull | Some s \<Rightarrow> JStr s)]"

definition json_of_IdeaSummary :: "IdeaSummary \<Rightarrow> json" where
  "json_of_IdeaSummary x =
     JObj [(''id'', JNum (of_int (summary_id x))),
           (''title'', JStr (summary_title x)),
           (''visibility'', JStr (summary_visibility x)),
           (''current_stage'', JStr (summary_current_stage x)),
           (''reactions_count'', JNum (of_int (summary_reactions_count x))),
           (''comments_count'', JNum (of_int (summary_comments_count x))),
           (''is_bookmarked'', JBool (summary_is_bookmarked x)),
           (''created_at'', JStr (summary_created_at x)),
           (''updated_at'', JStr (summary_updated_at x)),
           (''user'', json_of_SimplifiedUser (summary_user x))]"

definition json_of_IdeaLine :: "IdeaLine \<Rightarrow> json" where
  "json_of_IdeaLine l =
     JObj [(''id'', JNum (of_int (line_id l))),
           (''line_type'', JStr (line_type l)),
           (''content'', JStr (content l)),
           (''position'', JNum (of_int (position l))),
           (''comments_count'', JNum (of_int (comments_count l))),
           (''created_at'', JStr (line_created_at l)),
           (''updated_at'', JStr (line_updated_at l))]"

definition json_of_Reaction :: "Reaction \<Rightarrow> json" where
  "json_of_Reaction r =
     JObj [(''id'', JNum (of_int (reaction_id r))),
           (''reaction_type'', JStr (reaction_type r)),
           (''created_at'', JStr (reaction_created_at r)),
           (''user'', json_of_SimplifiedUser (reaction_user r))]"

definition json_of_IdeaDetail :: "IdeaDetail \<Rightarrow> json" where
  "json_of_IdeaDetail d =
     JObj [(''id'', JNum (of_int (detail_id d))),
           (''title'', JStr (title d)),
           (''visibility'', JStr (visibility d)),
           (''current_stage'', JStr (current_stage d)),
           (''reactions_count'', JNum (of_int (reactions_count d))),
           (''is_bookmarked'', JBool (is_bookmarked d)),
           (''created_at'', JStr (created_at d)),
           (''updated_at'', JStr (updated_at d)),
           (''user'', json_of_SimplifiedUser (user d)),
           (''lines'', JArr (map json_of_IdeaLine (lines d))),
           (''reactions'', JArr (map json_of_Reaction (reactions d)))]"

definition json_of_PaginationMeta :: "PaginationMeta \<Rightarrow> json" where
  "json_of_PaginationMeta m =
     JObj [(''current_page'', JNum (of_int (current_page m))),
           (''total_pages'', JNum (of_int (total_pages m))),
           (''total_count'', JNum (of_int (total_count m)))]"

definition json_of_IdeasListResponse :: "IdeasListResponse \<Rightarrow> json" where
  "json_of_IdeasListResponse r =
     JObj [(''ideas'', JArr (map json_of_IdeaSummary (ideas r))),
           (''meta'', json_of_PaginationMeta (meta r))]"

subsection \<open>Parameter schemas\<close>

text \<open>
  Each tool declares its parameters with the schema library; the server checks the
  arguments of a call against the schema and runs the handler only with the values
  the schema produced. The combinators below are the library's checks that the
  source uses: \<open>number\<close> accepts a JSON number, \<open>int\<close> a whole one, \<open>positive\<close> one
  above zero, \<open>max\<close> one up to the bound, \<open>string\<close> a string, \<open>min\<close> a string of
  at least that length, \<open>enum\<close> one of the listed strings; \<open>default\<close> puts a value
  in place of an argument that is absent, \<open>optional\<close> lets it be absent, and a field
  with neither must be present.
\<close>

definition and_then :: "error + 'a \<Rightarrow> ('a \<Rightarrow> error + 'b) \<Rightarrow> error + 'b" where
  "and_then r f = (case r of Inl e \<Rightarrow> Inl e | Inr x \<Rightarrow> f x)"

definition z_number :: "json \<Rightarrow> error + rat" where
  "z_number v = (case v of JNum q \<Rightarrow> Inr q | _ \<Rightarrow> Inl ValidationError)"

definition z_int :: "rat \<Rightarrow> error + int" where
  "z_int q = (if of_int \<lfloor>q\<rfloor> = q then Inr \<lfloor>q\<rfloor> else Inl ValidationError)"

definition z_positive :: "int \<Rightarrow> error + int" where
  "z_positive n = (if n > 0 then Inr n else Inl ValidationError)"

definition z_max :: "int \<Rightarrow> int \<Rightarrow> error + int" where
  "z_max m n = (if n \<le> m then Inr n else Inl ValidationError)"

definition z_string :: "json \<Rightarrow> error + string" where
  "z_string v = (case v of JStr s \<Rightarrow> Inr s | _ \<Rightarrow> Inl ValidationError)"

definition z_min :: "nat \<Rightarrow> string \<Rightarrow> error + string" where
  "z_min m s = (if length s \<ge> m then Inr s else Inl ValidationError)"

definition z_enum :: "string list \<Rightarrow> json \<Rightarrow> error + string" where
  "z_enum options v =
     (case v of
        JStr s \<Rightarrow> if s \<in> set options then Inr s else Inl ValidationError
      | _ \<Rightarrow> Inl ValidationError)"

definition z_default :: "'a \<Rightarrow> (json \<Rightarrow> error + 'a) \<Rightarrow> json option \<Rightarrow> error + 'a" where
  "z_default d schema arg = (case arg of None \<Rightarrow> Inr d | Some v \<Rightarrow> schema v)"

definition z_optional :: "(json \<Rightarrow> error + 'a) \<Rightarrow> json option \<Rightarrow> error + 'a option" where
  "z_optional schema arg =
     (case arg of None \<Rightarrow> Inr None | Some v \<Rightarrow> and_then (schema v) (\<lambda>x. Inr (Some x)))"

definition z_required :: "(json \<Rightarrow> error + 'a) \<Rightarrow> json option \<Rightarrow> error + 'a" where
  "z_required schema arg = (case arg of None \<Rightarrow> Inl ValidationError | Some v \<Rightarrow> schema v)"

text \<open>\<open>z.number().int().positive().default(1)\<close>\<close>

definition page_schema :: "json option \<Rightarrow> error + int" where
  "page_schema =
     z_default 1 (\<lambda>v. and_then (and_then (z_number v) z_int) z_positive)"

text \<open>\<open>z.number().int().positive().max(100).default(20)\<close>\<close>

definition per_page_schema :: "json option \<Rightarrow> error + int" where
  "per_page_schema =
     z_default 20
       (\<lambda>v. and_then (and_then (and_then (z_number v) z_int) z_positive) (z_max 100))"

text \<open>\<open>z.number().int().positive()\<close>\<close>

definition idea_id_schema :: "json option \<Rightarrow> error + int" where
  "idea_id_schema =
     z_required (\<lambda>v. and_then (and_then (z_number v) z_int) z_positive)"

text \<open>\<open>z.string().min(1)\<close>, \<open>z.string().optional()\<close>,
  \<open>z.enum(["public", "private"]).default("public")\<close>\<close>

definition title_schema :: "json option \<Rightarrow> error + string" where
  "title_schema = z_required (\<lambda>v. and_then (z_string v) (z_min 1))"

definition content_schema :: "json option \<Rightarrow> error + string option" where
  "content_schema = z_optional z_string"

definition visibility_schema :: "json option \<Rightarrow> error + string" where
  "visibility_schema = z_default ''public'' (z_enum [''public'', ''private''])"

subsection \<open>Tool handlers\<close>

type_synonym tool_result = "(error + string) \<times> http_request list"

text \<open>
  A handler takes the requests sent so far and returns the text of its result, or
  the failure it ends with, and the requests sent after it.
\<close>

definition list_ideas ::
  "config \<Rightarrow> remote_api \<Rightarrow> int \<Rightarrow> int \<Rightarrow> http_request list \<Rightarrow> tool_result" where
  "list_ideas cfg remote page per_page sent =
     (case apiRequest cfg remote
             (''/api/v1/ideas?page='' @ number_to_string page
                @ ''&per_page='' @ number_to_string per_page)
             \<lparr>opt_method = None, opt_body = None\<rparr> sent of
        (Inl e, sent') \<Rightarrow> (Inl e, sent')
      | (Inr j, sent') \<Rightarrow>
          (case as_IdeasListResponse j of
             None \<Rightarrow> (Inl UntypedResponse, sent')
           | Some data \<Rightarrow>
               (let summaries = join ''\<newline>\<newline>'' (map formatIdeaSummary (ideas data));
                    pagination =
                      ''\<newline>Page '' @ number_to_string (current_page (meta data))
                        @ '' of '' @ number_to_string (total_pages (meta data))
                        @ '' ('' @ number_to_string (total_count (meta data))
                        @ '' total ideas)''
                in (Inr (summaries @ ''\<newline>'' @ pagination), sent'))))"

text \<open>
  \<open>"idea" in data ? data.idea : data\<close>. The operator \<open>in\<close> throws a \<open>TypeError\<close> on a
  value that is not an object; an array is an object without that key. The key is
  in an object exactly when looking it up finds a value.
\<close>

definition unwrap_idea :: "json \<Rightarrow> error + json" where
  "unwrap_idea data =
     (case data of
        JObj kvs \<Rightarrow> (case map_of kvs ''idea'' of Some v \<Rightarrow> Inr v | None \<Rightarrow> Inr data)
      | JArr js \<Rightarrow> Inr data
      | _ \<Rightarrow> Inl TypeError)"

definition get_idea ::
  "config \<Rightarrow> remote_api \<Rightarrow> int \<Rightarrow> http_request list \<Rightarrow> tool_result" where
  "get_idea cfg remote idea_id sent =
     (case apiRequest cfg remote (''/api/v1/ideas/'' @ number_to_string idea_id)
             \<lparr>opt_method = None, opt_body = None\<rparr> sent of
        (Inl e, sent') \<Rightarrow> (Inl e, sent')
      | (Inr data, sent') \<Rightarrow>
          (case unwrap_idea data of
             Inl e \<Rightarrow> (Inl e, sent')
           | Inr j \<Rightarrow>
               (case as_IdeaDetail j of
                  None \<Rightarrow> (Inl UntypedResponse, sent')
                | Some idea \<Rightarrow> (Inr (fst (formatIdeaDetail idea)), sent'))))"

text \<open>
  The request body of \<open>create_idea\<close>: the object \<open>{ title, visibility }\<close>, to which
  \<open>if (content) body.content = content\<close> adds a third key when \<open>content\<close> is truthy,
  that is a string that is not empty.
\<close>

definition create_idea_body :: "string \<Rightarrow> string option \<Rightarrow> string \<Rightarrow> (string \<times> json) list" where
  "create_idea_body title' content' visibility' =
     (let body0 = [(''title'', JStr title'), (''visibility'', JStr visibility')]
      in case content' of
           None \<Rightarrow> body0
         | Some c \<Rightarrow> if c \<noteq> [] then body0 @ [(''content'', JStr c)] else body0)"

definition create_idea ::
  "config \<Rightarrow> remote_api \<Rightarrow> string \<Rightarrow> string option \<Rightarrow> string \<Rightarrow> http_request list
     \<Rightarrow> tool_result" where
  "create_idea cfg remote title' content' visibility' sent =
     (case apiRequest cfg remote ''/api/v1/ideas''
             \<lparr>opt_method = Some ''POST'',
              opt_body = Some (create_idea_body title' content' visibility')\<rparr> sent of
        (Inl e, sent') \<Rightarrow> (Inl e, sent')
      | (Inr data, sent') \<Rightarrow>
          (case unwrap_idea data of
             Inl e \<Rightarrow> (Inl e, sent')
           | Inr j \<Rightarrow>
               (case as_IdeaDetail j of
                  None \<Rightarrow> (Inl UntypedResponse, sent')
                | Some idea \<Rightarrow>
                    (Inr (''Idea created successfully!\<newline>\<newline>''
                            @ fst (formatIdeaDetail idea)), sent'))))"

subsection \<open>Tools: schema, then handler\<close>

type_synonym arguments = "(string \<times> json) list"

definition list_ideas_tool ::
  "config \<Rightarrow> remote_api \<Rightarrow> arguments \<Rightarrow> http_request list \<Rightarrow> tool_result" where
  "list_ideas_tool cfg remote args sent =
     (case page_schema (map_of args ''page'') of
        Inl e \<Rightarrow> (Inl e, sent)
      | Inr page \<Rightarrow>
          (case per_page_schema (map_of args ''per_page'') of
             Inl e \<Rightarrow> (Inl e, sent)
           | Inr per_page \<Rightarrow> list_ideas cfg remote page per_page sent))"

definition get_idea_tool ::
  "config \<Rightarrow> remote_api \<Rightarrow> arguments \<Rightarrow> http_request list \<Rightarrow> tool_result" where
  "get_idea_tool cfg remote args sent =
     (case idea_id_schema (map_of args ''idea_id'') of
        Inl e \<Rightarrow> (Inl e, sent)
      | Inr idea_id \<Rightarrow> get_idea cfg remote idea_id sent)"

definition create_idea_tool ::
  "config \<Rightarrow> remote_api \<Rightarrow> arguments \<Rightarrow> http_request list \<Rightarrow> tool_result" where
  "create_idea_tool cfg remote args sent =
     (case title_schema (map_of args ''title'') of
        Inl e \<Rightarrow> (Inl e, sent)
      | Inr title' \<Rightarrow>
          (case content_schema (map_of args ''content'') of
             Inl e \<Rightarrow> (Inl e, sent)
           | Inr content' \<Rightarrow>
               (case visibility_schema (map_of args ''visibility'') of
                  Inl e \<Rightarrow> (Inl e, sent)
                | Inr visibility' \<Rightarrow>
                    create_idea cfg remote title' content' visibility' sent)))"










subsection \<open>Example values\<close>

definition example_user :: SimplifiedUser where
  "example_user = \<lparr>user_id = 7, display_name = ''Aoi'', avatar_path = None\<rparr>"

definition example_line_body :: IdeaLine where
  "example_line_body =
     \<lparr>line_id = 11, line_type = ''paragraph'', content = ''Sell tea by the cup'',
      position = 2, comments_count = 0, line_created_at = ''2025-01-02'',
      line_updated_at = ''2025-01-02''\<rparr>"

definition example_line_heading :: IdeaLine where
  "example_line_heading =
     \<lparr>line_id = 12, line_type = ''heading'', content = ''Plan'',
      position = 1, comments_count = 2, line_created_at = ''2025-01-03'',
      line_updated_at = ''2025-01-03''\<rparr>"

definition example_reactions :: "Reaction list" where
  "example_reactions =
     [\<lparr>reaction_id = 21, reaction_type = ''like'', reaction_created_at = ''2025-01-04'',
       reaction_user = example_user\<rparr>,
      \<lparr>reaction_id = 22, reaction_type = ''fire'', reaction_created_at = ''2025-01-05'',
       reaction_user = example_user\<lparr>user_id := 8, display_name := ''Ren''\<rparr>\<rparr>]"

text \<open>An idea whose lines arrive with the later position first.\<close>

definition example_idea :: IdeaDetail where
  "example_idea =
     \<lparr>detail_id = 3, title = ''Tea stand'', visibility = ''public'',
      current_stage = ''draft'', reactions_count = 2, is_bookmarked = False,
      created_at = ''2025-01-01'', updated_at = ''2025-01-05'', user = example_user,
      lines = [example_line_body, example_line_heading],
      reactions = example_reactions\<rparr>"

definition example_config :: config where
  "example_config = \<lparr>api_key = ''secret'', base_url = ''https://tanebi.app''\<rparr>"

text \<open>A server that refuses every request, and two that answer every request with
  \<open>example_idea\<close>, as the object itself and wrapped under the key \<open>idea\<close>.\<close>

definition example_failure :: http_response where
  "example_failure =
     \<lparr>status = 422, statusText = ''Unprocessable Entity'', body_text = ''title required'',
      body_json = None\<rparr>"

definition example_success :: "json \<Rightarrow> http_response" where
  "example_success j = \<lparr>status = 200, statusText = ''OK'', body_text = [], body_json = Some j\<rparr>"

definition example_remote_direct :: remote_api where
  "example_remote_direct = (\<lambda>req. Inr (example_success (json_of_IdeaDetail example_idea)))"

definition example_remote_wrapped :: remote_api where
  "example_remote_wrapped =
     (\<lambda>req. Inr (example_success (JObj [(''idea'', json_of_IdeaDetail example_idea)])))"

text \<open>A server that answers every request with a one-idea page of the listing.\<close>

definition example_summary :: IdeaSummary where
  "example_summary =
     \<lparr>summary_id = 3, summary_title = ''Tea stand'', summary_visibility = ''public'',
      summary_current_stage = ''draft'', summary_reactions_count = 2,
      summary_comments_count = 2, summary_is_bookmarked = False,
      summary_created_at = ''2025-01-01'', summary_updated_at = ''2025-01-05'',
      summary_user = example_user\<rparr>"

definition example_list :: IdeasListResponse where
  "example_list =
     \<lparr>ideas = [example_summary],
      meta = \<lparr>current_page = 2, total_pages = 5, total_count = 41\<rparr>\<rparr>"

definition example_remote_list :: remote_api where
  "example_remote_list = (\<lambda>req. Inr (example_success (json_of_IdeasListResponse example_list)))"

section \<open>Properties\<close>

subsection \<open>Printing numbers\<close>

lemmas number_eval = number_to_string_def positive_to_string_def shortest_decimal_def
  exponent_form_def shortest_from.simps rounds_to_def ulp_def bit_length.simps digits.simps
  Let_def























subsection \<open>The formatters\<close>

lemma sort_insert_position:
  "sort_insert compare_position x ys = insort_key position x ys"
  by (induction ys) (simp_all add: compare_position_def)

lemma array_sort_position:
  "array_sort compare_position xs = sort_key position xs"
  by (induction xs) (simp_all add: array_sort_def sort_insert_position)

lemma formatIdeaDetail_text:
  "fst (formatIdeaDetail idea) =
     detail_header idea @ fst (detail_content (lines idea)) @ detail_reactions (reactions idea)"
  by (simp add: formatIdeaDetail_def split: prod.splits)

lemma formatIdeaDetail_idea:
  "snd (formatIdeaDetail idea) = idea\<lparr>lines := snd (detail_content (lines idea))\<rparr>"
  by (simp add: formatIdeaDetail_def split: prod.splits)

lemmas example_defs = example_idea_def example_line_body_def example_line_heading_def
  example_reactions_def example_user_def

text \<open>
  C1. The text of \<open>formatIdeaDetail\<close> is the header, the content section and the
  reactions section. With at least one line the content section is the content
  heading followed by one paragraph for each line, joined by a blank line, in the
  order the sort leaves them: ascending by position, the same lines as the input,
  and lines of one position in their input order. A paragraph starts with the
  heading marker exactly when the line type is \<open>heading\<close> and ends with the comment
  annotation exactly when \<open>comments_count > 0\<close>. Without lines the section is the
  fixed placeholder, which holds no content heading.
\<close>

theorem content_section_sorted_by_position:
  "sorted (map position (array_sort compare_position (lines idea)))
   \<and> mset (array_sort compare_position (lines idea)) = mset (lines idea)
   \<and> (\<forall>k. filter (\<lambda>l. position l = k) (array_sort compare_position (lines idea))
          = filter (\<lambda>l. position l = k) (lines idea))
   \<and> fst (formatIdeaDetail idea) =
       detail_header idea
       @ (if lines idea = [] then ''\<newline>\<newline>(No content yet)''
          else ''\<newline>\<newline>## Content\<newline>\<newline>''
               @ join ''\<newline>\<newline>''
                   (map (\<lambda>l. (if line_type l = ''heading'' then ''### '' else [])
                             @ content l
                             @ (if comments_count l > 0
                                then '' ['' @ number_to_string (comments_count l) @ '' comments]''
                                else []))
                      (array_sort compare_position (lines idea))))
       @ detail_reactions (reactions idea)
   \<and> \<not> sublist ''## Content'' ''\<newline>\<newline>(No content yet)''"
proof -
  let ?ys = "array_sort compare_position (lines idea)"
  have s: "?ys = sort_key position (lines idea)" by (rule array_sort_position)
  have 1: "sorted (map position ?ys)" unfolding s by simp
  have 2: "mset ?ys = mset (lines idea)" unfolding s by simp
  have 3: "\<forall>k. filter (\<lambda>l. position l = k) ?ys = filter (\<lambda>l. position l = k) (lines idea)"
    unfolding s by (simp add: sort_key_stable)
  have r: "render_line = (\<lambda>l. (if line_type l = ''heading'' then ''### '' else [])
                             @ content l
                             @ (if comments_count l > 0
                                then '' ['' @ number_to_string (comments_count l) @ '' comments]''
                                else []))"
    by (rule ext) (simp add: render_line_def)
  have 4: "fst (detail_content (lines idea)) =
      (if lines idea = [] then ''\<newline>\<newline>(No content yet)''
          else ''\<newline>\<newline>## Content\<newline>\<newline>''
               @ join ''\<newline>\<newline>'' (map render_line ?ys))"
    by (simp add: detail_content_def Let_def)
  have 5: "\<not> sublist ''## Content'' ''\<newline>\<newline>(No content yet)''" by code_simp
  show ?thesis using 1 2 3 5 unfolding formatIdeaDetail_text 4 r by simp
qed

theorem content_section_sorted_by_position_witness:
  "fst (formatIdeaDetail example_idea) =
     ''# Tea stand\<newline>\<newline>ID: 3\<newline>Stage: draft | Visibility: public\<newline>Author: Aoi\<newline>Reactions: 2\<newline>Created: 2025-01-01 | Updated: 2025-01-05\<newline>\<newline>## Content\<newline>\<newline>### Plan [2 comments]\<newline>\<newline>Sell tea by the cup\<newline>\<newline>## Reactions\<newline>\<newline>- like by Aoi\<newline>- fire by Ren''
   \<and> fst (formatIdeaDetail (example_idea\<lparr>lines := [], reactions := []\<rparr>)) =
     ''# Tea stand\<newline>\<newline>ID: 3\<newline>Stage: draft | Visibility: public\<newline>Author: Aoi\<newline>Reactions: 2\<newline>Created: 2025-01-01 | Updated: 2025-01-05\<newline>\<newline>(No content yet)''"
proof -
  note t1 = content_section_sorted_by_position [of example_idea,
      THEN conjunct2, THEN conjunct2, THEN conjunct2, THEN conjunct1]
  note t2 = content_section_sorted_by_position [of "example_idea\<lparr>lines := [], reactions := []\<rparr>",
      THEN conjunct2, THEN conjunct2, THEN conjunct2, THEN conjunct1]
  have 1: "fst (formatIdeaDetail example_idea) =
     ''# Tea stand\<newline>\<newline>ID: 3\<newline>Stage: draft | Visibility: public\<newline>Author: Aoi\<newline>Reactions: 2\<newline>Created: 2025-01-01 | Updated: 2025-01-05\<newline>\<newline>## Content\<newline>\<newline>### Plan [2 comments]\<newline>\<newline>Sell tea by the cup\<newline>\<newline>## Reactions\<newline>\<newline>- like by Aoi\<newline>- fire by Ren''"
    unfolding t1
    by (simp add: example_defs detail_header_def detail_reactions_def render_reaction_def
        array_sort_def compare_position_def number_eval)
  have 2: "fst (formatIdeaDetail (example_idea\<lparr>lines := [], reactions := []\<rparr>)) =
     ''# Tea stand\<newline>\<newline>ID: 3\<newline>Stage: draft | Visibility: public\<newline>Author: Aoi\<newline>Reactions: 2\<newline>Created: 2025-01-01 | Updated: 2025-01-05\<newline>\<newline>(No content yet)''"
    unfolding t2
    by (simp add: example_defs detail_header_def detail_reactions_def
        number_eval)
  from 1 2 show ?thesis by (rule conjI)
qed

text \<open>
  C2, at the idea \<open>example_idea\<close>, whose two lines arrive in the order position 2,
  position 1: after \<open>formatIdeaDetail\<close> the \<open>lines\<close> array of the idea holds them in
  the order position 1, position 2, so the argument is not left as it was received.
\<close>

theorem formatIdeaDetail_reorders_lines:
  "lines example_idea = [example_line_body, example_line_heading]
   \<and> lines (snd (formatIdeaDetail example_idea)) = [example_line_heading, example_line_body]
   \<and> snd (formatIdeaDetail example_idea) \<noteq> example_idea"
proof -
  have ne: "example_line_body \<noteq> example_line_heading"
    by (simp add: example_line_body_def example_line_heading_def)
  have 1: "lines example_idea = [example_line_body, example_line_heading]"
    by (simp add: example_idea_def)
  have 2: "lines (snd (formatIdeaDetail example_idea)) = [example_line_heading, example_line_body]"
    by (simp add: formatIdeaDetail_idea 1 detail_content_def array_sort_def compare_position_def
        example_line_body_def example_line_heading_def)
  from 1 2 ne have "lines (snd (formatIdeaDetail example_idea)) \<noteq> lines example_idea" by simp
  then have 3: "snd (formatIdeaDetail example_idea) \<noteq> example_idea" by metis
  from 1 2 3 show ?thesis by simp
qed

text \<open>
  C9. The reactions section closes the text of \<open>formatIdeaDetail\<close>. With at least
  one reaction it is the reactions heading followed by one bullet for each reaction,
  which shows the reaction type and the display name of the reacting user. Without
  reactions it is empty: the text ends with the content section and no reactions
  heading is written.
\<close>

theorem reactions_section:
  "fst (formatIdeaDetail idea) =
     detail_header idea @ fst (detail_content (lines idea))
     @ (if reactions idea = [] then []
        else ''\<newline>\<newline>## Reactions\<newline>\<newline>''
             @ join ''\<newline>''
                 (map (\<lambda>r. ''- '' @ reaction_type r @ '' by '' @ display_name (reaction_user r))
                    (reactions idea)))"
proof -
  have r: "render_reaction =
             (\<lambda>r. ''- '' @ reaction_type r @ '' by '' @ display_name (reaction_user r))"
    by (rule ext) (simp add: render_reaction_def)
  show ?thesis unfolding formatIdeaDetail_text detail_reactions_def r by simp
qed

theorem reactions_section_witness:
  "fst (formatIdeaDetail (example_idea\<lparr>lines := []\<rparr>)) =
     ''# Tea stand\<newline>\<newline>ID: 3\<newline>Stage: draft | Visibility: public\<newline>Author: Aoi\<newline>Reactions: 2\<newline>Created: 2025-01-01 | Updated: 2025-01-05\<newline>\<newline>(No content yet)\<newline>\<newline>## Reactions\<newline>\<newline>- like by Aoi\<newline>- fire by Ren''
   \<and> fst (formatIdeaDetail (example_idea\<lparr>lines := [], reactions := []\<rparr>)) =
     detail_header example_idea @ ''\<newline>\<newline>(No content yet)''"
proof -
  have 1: "fst (formatIdeaDetail (example_idea\<lparr>lines := []\<rparr>)) =
     ''# Tea stand\<newline>\<newline>ID: 3\<newline>Stage: draft | Visibility: public\<newline>Author: Aoi\<newline>Reactions: 2\<newline>Created: 2025-01-01 | Updated: 2025-01-05\<newline>\<newline>(No content yet)\<newline>\<newline>## Reactions\<newline>\<newline>- like by Aoi\<newline>- fire by Ren''"
    unfolding reactions_section [of "example_idea\<lparr>lines := []\<rparr>"]
    by (simp add: example_defs detail_header_def detail_content_def
        number_eval)
  have 2: "fst (formatIdeaDetail (example_idea\<lparr>lines := [], reactions := []\<rparr>)) =
     detail_header example_idea @ ''\<newline>\<newline>(No content yet)''"
    unfolding reactions_section [of "example_idea\<lparr>lines := [], reactions := []\<rparr>"]
    by (simp add: detail_header_def detail_content_def)
  from 1 2 show ?thesis by (rule conjI)
qed

lemma join_concat:
  "xs \<noteq> [] \<Longrightarrow> sep @ join sep xs = concat (map (\<lambda>x. sep @ x) xs)"
  by (induction sep xs rule: join.induct) simp_all

text \<open>
  C10. For an idea with at least one reaction, the text after the content section
  is the reactions heading and then, for each element of the reactions array in the
  order of the array, a line feed and the bullet of that element: as many bullets
  as reactions, none moved, merged or left out.
\<close>

theorem one_bullet_per_reaction_in_order:
  "reactions idea \<noteq> [] \<Longrightarrow>
   fst (formatIdeaDetail idea) =
     detail_header idea @ fst (detail_content (lines idea))
     @ ''\<newline>\<newline>## Reactions\<newline>''
     @ concat (map (\<lambda>r. ''\<newline>- '' @ reaction_type r @ '' by ''
                          @ display_name (reaction_user r))
                 (reactions idea))"
proof -
  assume ne: "reactions idea \<noteq> []"
  then have m: "map render_reaction (reactions idea) \<noteq> []" by simp
  have "''\<newline>\<newline>## Reactions\<newline>\<newline>''
          @ join ''\<newline>'' (map render_reaction (reactions idea))
        = ''\<newline>\<newline>## Reactions\<newline>''
          @ (''\<newline>'' @ join ''\<newline>'' (map render_reaction (reactions idea)))"
    by simp
  also have "\<dots> = ''\<newline>\<newline>## Reactions\<newline>''
          @ concat (map (\<lambda>x. ''\<newline>'' @ x) (map render_reaction (reactions idea)))"
    by (simp only: join_concat [OF m])
  also have "\<dots> = ''\<newline>\<newline>## Reactions\<newline>''
          @ concat (map (\<lambda>r. ''\<newline>- '' @ reaction_type r @ '' by ''
                          @ display_name (reaction_user r)) (reactions idea))"
    by (simp add: render_reaction_def comp_def)
  finally have r: "detail_reactions (reactions idea)
        = ''\<newline>\<newline>## Reactions\<newline>''
          @ concat (map (\<lambda>r. ''\<newline>- '' @ reaction_type r @ '' by ''
                          @ display_name (reaction_user r)) (reactions idea))"
    using ne by (simp add: detail_reactions_def)
  show ?thesis unfolding formatIdeaDetail_text r ..
qed

theorem one_bullet_per_reaction_in_order_witness:
  "reactions example_idea \<noteq> []
   \<and> map reaction_type (reactions example_idea) = [''like'', ''fire'']
   \<and> fst (formatIdeaDetail example_idea) =
     ''# Tea stand\<newline>\<newline>ID: 3\<newline>Stage: draft | Visibility: public\<newline>Author: Aoi\<newline>Reactions: 2\<newline>Created: 2025-01-01 | Updated: 2025-01-05\<newline>\<newline>## Content\<newline>\<newline>### Plan [2 comments]\<newline>\<newline>Sell tea by the cup\<newline>\<newline>## Reactions\<newline>\<newline>- like by Aoi\<newline>- fire by Ren''"
proof -
  have h: "reactions example_idea \<noteq> []"
    by (simp add: example_idea_def example_reactions_def)
  have t: "map reaction_type (reactions example_idea) = [''like'', ''fire'']"
    by (simp add: example_idea_def example_reactions_def)
  have "fst (formatIdeaDetail example_idea) =
     ''# Tea stand\<newline>\<newline>ID: 3\<newline>Stage: draft | Visibility: public\<newline>Author: Aoi\<newline>Reactions: 2\<newline>Created: 2025-01-01 | Updated: 2025-01-05\<newline>\<newline>## Content\<newline>\<newline>### Plan [2 comments]\<newline>\<newline>Sell tea by the cup\<newline>\<newline>## Reactions\<newline>\<newline>- like by Aoi\<newline>- fire by Ren''"
    unfolding one_bullet_per_reaction_in_order [OF h]
    by (simp add: example_defs detail_header_def detail_content_def render_line_def
        array_sort_def compare_position_def number_eval)
  with h t show ?thesis by (intro conjI)
qed

subsection \<open>The base URL\<close>

lemma all_slashes_replaced:
  "list_all (\<lambda>d. d = CHR ''/'') cs \<Longrightarrow> replace_trailing_slashes cs = []"
  by (cases cs) simp_all

lemma replace_trailing_slashes_strip:
  "replace_trailing_slashes v = strip_trailing_slashes_spec v"
proof (induction v)
  case Nil
  show ?case by (simp add: strip_trailing_slashes_spec_def)
next
  case (Cons c cs)
  show ?case
  proof (cases "list_all (\<lambda>d. d = CHR ''/'') cs")
    case True
    then have "\<forall>x\<in>set (rev cs). x = CHR ''/''" by (simp add: list_all_iff)
    then have "strip_trailing_slashes_spec (c # cs) = (if c = CHR ''/'' then [] else [c])"
      by (simp add: strip_trailing_slashes_spec_def dropWhile_append)
    with True show ?thesis by (simp add: all_slashes_replaced)
  next
    case False
    then have "\<not> (\<forall>x\<in>set (rev cs). x = CHR ''/'')" by (simp add: list_all_iff)
    then have "strip_trailing_slashes_spec (c # cs) = c # strip_trailing_slashes_spec cs"
      by (simp add: strip_trailing_slashes_spec_def dropWhile_append)
    with False Cons.IH show ?thesis by simp
  qed
qed

text \<open>
  C8 as stated fails where the variable holds nothing but slashes: for the value
  \<open>/\<close> the stripped value is the empty string, and the base URL is the default.
\<close>

theorem API_BASE_URL_only_slashes:
  "API_BASE_URL (Some ''/'') \<noteq> strip_trailing_slashes_spec ''/''
   \<and> API_BASE_URL (Some ''/'') = ''https://tanebi.app''
   \<and> strip_trailing_slashes_spec ''/'' = []"
  by (simp add: API_BASE_URL_def DEFAULT_BASE_URL_def strip_trailing_slashes_spec_def)

text \<open>
  C8, amended. The base URL is the value of the variable with its trailing slashes
  stripped when that leaves a string that is not empty; it is
  \<open>https://tanebi.app\<close> when the variable is unset, empty or made of slashes only.
  Once the process has started (the API key \<open>k\<close> is not empty), the URL of every
  request is this base URL followed by the path.
\<close>

theorem API_BASE_URL_stripped_or_default:
  "k \<noteq> [] \<Longrightarrow>
   API_BASE_URL env =
     (case env of
        None \<Rightarrow> ''https://tanebi.app''
      | Some v \<Rightarrow> if strip_trailing_slashes_spec v = [] then ''https://tanebi.app''
                  else strip_trailing_slashes_spec v)
   \<and> map_option (\<lambda>cfg. url (fetch_arguments cfg path options)) (load_config (Some k) env)
       = Some (API_BASE_URL env @ path)"
  by (simp add: API_BASE_URL_def DEFAULT_BASE_URL_def replace_trailing_slashes_strip
      load_config_def fetch_arguments_def Let_def split: option.splits)

theorem API_BASE_URL_stripped_or_default_witness:
  "''secret'' \<noteq> []
   \<and> API_BASE_URL (Some ''http://localhost:3000//'') = ''http://localhost:3000''
   \<and> API_BASE_URL (Some []) = ''https://tanebi.app''
   \<and> API_BASE_URL None = ''https://tanebi.app''
   \<and> map_option
        (\<lambda>cfg. url (fetch_arguments cfg ''/api/v1/ideas'' \<lparr>opt_method = None, opt_body = None\<rparr>))
        (load_config (Some ''secret'') (Some ''http://localhost:3000//''))
       = Some ''http://localhost:3000/api/v1/ideas''"
proof -
  have k: "''secret'' \<noteq> []" by simp
  have s: "strip_trailing_slashes_spec ''http://localhost:3000//'' = ''http://localhost:3000''"
    by (simp add: strip_trailing_slashes_spec_def)
  have e: "strip_trailing_slashes_spec [] = []"
    by (simp add: strip_trailing_slashes_spec_def)
  note t = API_BASE_URL_stripped_or_default [OF k]
  have 1: "API_BASE_URL (Some ''http://localhost:3000//'') = ''http://localhost:3000''"
    using t [of "Some ''http://localhost:3000//''"] by (simp add: s)
  have 2: "API_BASE_URL (Some []) = ''https://tanebi.app''"
    using t [of "Some []"] by (simp add: e)
  have 3: "API_BASE_URL None = ''https://tanebi.app''"
    using t [of None] by simp
  have 4: "map_option
        (\<lambda>cfg. url (fetch_arguments cfg ''/api/v1/ideas'' \<lparr>opt_method = None, opt_body = None\<rparr>))
        (load_config (Some ''secret'') (Some ''http://localhost:3000//''))
       = Some (API_BASE_URL (Some ''http://localhost:3000//'') @ ''/api/v1/ideas'')"
    using t [of "Some ''http://localhost:3000//''"] by blast
  show ?thesis unfolding 4 using k 1 2 3 by simp
qed

subsection \<open>The API client\<close>

lemma sublist_in_message:
  "sublist n (p @ n @ q @ st @ r @ b)"
  "sublist st (p @ n @ q @ st @ r @ b)"
  "sublist b (p @ n @ q @ st @ r @ b)"
proof -
  show "sublist n (p @ n @ q @ st @ r @ b)" by (rule sublist_appendI)
  have "sublist st ((p @ n @ q) @ st @ (r @ b))" by (rule sublist_appendI)
  then show "sublist st (p @ n @ q @ st @ r @ b)" by simp
  have "sublist b ((p @ n @ q @ st @ r) @ b @ [])" by (rule sublist_appendI)
  then show "sublist b (p @ n @ q @ st @ r @ b)" by simp
qed

lemma apiRequest_ok:
  "remote (fetch_arguments cfg path options) = Inr response \<Longrightarrow> ok response \<Longrightarrow>
   apiRequest cfg remote path options sent =
     ((case body_json response of None \<Rightarrow> Inl SyntaxError | Some j \<Rightarrow> Inr j),
      sent @ [fetch_arguments cfg path options])"
  by (simp add: apiRequest_def Let_def split: option.splits)

lemma apiRequest_not_ok:
  "remote (fetch_arguments cfg path options) = Inr response \<Longrightarrow> \<not> ok response \<Longrightarrow>
   apiRequest cfg remote path options sent =
     (Inl (ApiError (''API request failed: '' @ number_to_string (status response)
                      @ '' '' @ statusText response @ '' - '' @ body_text response)),
      sent @ [fetch_arguments cfg path options])"
  by (simp add: apiRequest_def Let_def)

lemma apiRequest_sent:
  "snd (apiRequest cfg remote path options sent) = sent @ [fetch_arguments cfg path options]"
  by (simp add: apiRequest_def Let_def split: sum.splits option.splits)

lemma list_ideas_propagates:
  "apiRequest cfg remote
      (''/api/v1/ideas?page='' @ number_to_string page @ ''&per_page='' @ number_to_string per_page)
      \<lparr>opt_method = None, opt_body = None\<rparr> sent = (Inl e, s) \<Longrightarrow>
   list_ideas cfg remote page per_page sent = (Inl e, s)"
  by (simp add: list_ideas_def)

lemma get_idea_propagates:
  "apiRequest cfg remote (''/api/v1/ideas/'' @ number_to_string idea_id)
      \<lparr>opt_method = None, opt_body = None\<rparr> sent = (Inl e, s) \<Longrightarrow>
   get_idea cfg remote idea_id sent = (Inl e, s)"
  by (simp add: get_idea_def)

lemma create_idea_propagates:
  "apiRequest cfg remote ''/api/v1/ideas''
      \<lparr>opt_method = Some ''POST'', opt_body = Some (create_idea_body t c v)\<rparr> sent = (Inl e, s) \<Longrightarrow>
   create_idea cfg remote t c v sent = (Inl e, s)"
  by (simp add: create_idea_def)

text \<open>
  C6. Let the server answer the request of \<open>apiRequest\<close> with a response. On a
  success status (\<open>response.ok\<close>, 200 to 299) \<open>apiRequest\<close> returns what parsing the
  body as JSON gives. On any other status it fails with an error whose message
  contains the status code, the status text and the body text. A failure of
  \<open>apiRequest\<close> is the failure of the handler that called it: \<open>list_ideas\<close>,
  \<open>get_idea\<close> and \<open>create_idea\<close>, each with the request it sends, pass it on.
\<close>

theorem apiRequest_success_and_failure:
  "(\<forall>response. remote (fetch_arguments cfg path options) = Inr response \<longrightarrow>
      (ok response \<longrightarrow>
         apiRequest cfg remote path options sent =
           ((case body_json response of None \<Rightarrow> Inl SyntaxError | Some j \<Rightarrow> Inr j),
            sent @ [fetch_arguments cfg path options]))
    \<and> (\<not> ok response \<longrightarrow>
         (\<exists>msg. apiRequest cfg remote path options sent =
                  (Inl (ApiError msg), sent @ [fetch_arguments cfg path options])
              \<and> sublist (number_to_string (status response)) msg
              \<and> sublist (statusText response) msg
              \<and> sublist (body_text response) msg)))
   \<and> (\<forall>e s. apiRequest cfg remote
               (''/api/v1/ideas?page='' @ number_to_string page
                  @ ''&per_page='' @ number_to_string per_page)
               \<lparr>opt_method = None, opt_body = None\<rparr> sent = (Inl e, s)
            \<longrightarrow> list_ideas cfg remote page per_page sent = (Inl e, s))
   \<and> (\<forall>e s. apiRequest cfg remote (''/api/v1/ideas/'' @ number_to_string idea_id)
               \<lparr>opt_method = None, opt_body = None\<rparr> sent = (Inl e, s)
            \<longrightarrow> get_idea cfg remote idea_id sent = (Inl e, s))
   \<and> (\<forall>e s. apiRequest cfg remote ''/api/v1/ideas''
               \<lparr>opt_method = Some ''POST'', opt_body = Some (create_idea_body t c v)\<rparr> sent
               = (Inl e, s)
            \<longrightarrow> create_idea cfg remote t c v sent = (Inl e, s))"
proof -
  have A: "\<forall>response. remote (fetch_arguments cfg path options) = Inr response \<longrightarrow>
      (ok response \<longrightarrow>
         apiRequest cfg remote path options sent =
           ((case body_json response of None \<Rightarrow> Inl SyntaxError | Some j \<Rightarrow> Inr j),
            sent @ [fetch_arguments cfg path options]))
    \<and> (\<not> ok response \<longrightarrow>
         (\<exists>msg. apiRequest cfg remote path options sent =
                  (Inl (ApiError msg), sent @ [fetch_arguments cfg path options])
              \<and> sublist (number_to_string (status response)) msg
              \<and> sublist (statusText response) msg
              \<and> sublist (body_text response) msg))"
  proof (intro allI impI conjI)
    fix response
    assume r: "remote (fetch_arguments cfg path options) = Inr response"
    { assume "ok response"
      with r show "apiRequest cfg remote path options sent =
           ((case body_json response of None \<Rightarrow> Inl SyntaxError | Some j \<Rightarrow> Inr j),
            sent @ [fetch_arguments cfg path options])"
        by (rule apiRequest_ok) }
    { assume "\<not> ok response"
      with r have "apiRequest cfg remote path options sent =
          (Inl (ApiError (''API request failed: '' @ number_to_string (status response)
                      @ '' '' @ statusText response @ '' - '' @ body_text response)),
           sent @ [fetch_arguments cfg path options])"
        by (rule apiRequest_not_ok)
      moreover note sublist_in_message [where n = "number_to_string (status response)"
            and p = "''API request failed: ''" and q = "'' ''" and st = "statusText response"
            and r = "'' - ''" and b = "body_text response"]
      ultimately show "\<exists>msg. apiRequest cfg remote path options sent =
                  (Inl (ApiError msg), sent @ [fetch_arguments cfg path options])
              \<and> sublist (number_to_string (status response)) msg
              \<and> sublist (statusText response) msg
              \<and> sublist (body_text response) msg"
        by (intro exI conjI) }
  qed
  have D: "\<forall>e s. apiRequest cfg remote ''/api/v1/ideas''
               \<lparr>opt_method = Some ''POST'', opt_body = Some (create_idea_body t c v)\<rparr> sent
               = (Inl e, s)
            \<longrightarrow> create_idea cfg remote t c v sent = (Inl e, s)"
    using create_idea_propagates by blast
  show ?thesis using A D list_ideas_propagates get_idea_propagates by blast
qed

theorem apiRequest_success_and_failure_witness:
  "\<not> ok example_failure
   \<and> apiRequest example_config (\<lambda>req. Inr example_failure) ''/api/v1/ideas/3''
        \<lparr>opt_method = None, opt_body = None\<rparr> []
      = (Inl (ApiError ''API request failed: 422 Unprocessable Entity - title required''),
         [fetch_arguments example_config ''/api/v1/ideas/3''
            \<lparr>opt_method = None, opt_body = None\<rparr>])
   \<and> sublist ''422'' ''API request failed: 422 Unprocessable Entity - title required''
   \<and> sublist ''Unprocessable Entity''
        ''API request failed: 422 Unprocessable Entity - title required''
   \<and> sublist ''title required''
        ''API request failed: 422 Unprocessable Entity - title required''
   \<and> get_idea example_config (\<lambda>req. Inr example_failure) 3 []
      = (Inl (ApiError ''API request failed: 422 Unprocessable Entity - title required''),
         [fetch_arguments example_config ''/api/v1/ideas/3''
            \<lparr>opt_method = None, opt_body = None\<rparr>])
   \<and> list_ideas example_config (\<lambda>req. Inr example_failure) 1 20 []
      = (Inl (ApiError ''API request failed: 422 Unprocessable Entity - title required''),
         [fetch_arguments example_config ''/api/v1/ideas?page=1&per_page=20''
            \<lparr>opt_method = None, opt_body = None\<rparr>])
   \<and> create_idea example_config (\<lambda>req. Inr example_failure) ''Tea stand'' None ''public'' []
      = (Inl (ApiError ''API request failed: 422 Unprocessable Entity - title required''),
         [fetch_arguments example_config ''/api/v1/ideas''
            \<lparr>opt_method = Some ''POST'',
             opt_body = Some [(''title'', JStr ''Tea stand''),
                              (''visibility'', JStr ''public'')]\<rparr>])"
proof -
  let ?remote = "\<lambda>req::http_request. (Inr example_failure :: error + http_response)"
  let ?msg = "''API request failed: 422 Unprocessable Entity - title required''"
  have n: "\<not> ok example_failure" by (simp add: ok_def example_failure_def)
  have s: "number_to_string (status example_failure) = ''422''"
    by (simp add: example_failure_def number_eval)
  have t: "statusText example_failure = ''Unprocessable Entity''"
    "body_text example_failure = ''title required''"
    by (simp_all add: example_failure_def)
  have a: "apiRequest example_config ?remote path options [] =
             (Inl (ApiError ?msg), [fetch_arguments example_config path options])"
    for path options
    using apiRequest_not_ok [where remote = ?remote and cfg = example_config and path = path
        and options = options and response = example_failure and sent = "[]", OF refl n]
    unfolding s t by simp
  note th = apiRequest_success_and_failure
    [where remote = ?remote and cfg = example_config and sent = "[]"
       and path = "''/api/v1/ideas/3''"
       and options = "\<lparr>opt_method = None, opt_body = None\<rparr>"
       and page = 1 and per_page = 20 and idea_id = 3
       and t = "''Tea stand''" and c = None and v = "''public''"]
  from th have "\<exists>msg. apiRequest example_config ?remote ''/api/v1/ideas/3''
                  \<lparr>opt_method = None, opt_body = None\<rparr> [] =
               (Inl (ApiError msg),
                [] @ [fetch_arguments example_config ''/api/v1/ideas/3''
                   \<lparr>opt_method = None, opt_body = None\<rparr>])
          \<and> sublist (number_to_string (status example_failure)) msg
          \<and> sublist (statusText example_failure) msg
          \<and> sublist (body_text example_failure) msg"
    using n by blast
  then obtain msg where m: "apiRequest example_config ?remote ''/api/v1/ideas/3''
                  \<lparr>opt_method = None, opt_body = None\<rparr> [] =
               (Inl (ApiError msg),
                [] @ [fetch_arguments example_config ''/api/v1/ideas/3''
                   \<lparr>opt_method = None, opt_body = None\<rparr>])"
    and sub: "sublist (number_to_string (status example_failure)) msg"
      "sublist (statusText example_failure) msg" "sublist (body_text example_failure) msg"
    by blast
  from m have "msg = ?msg" unfolding a by simp
  with sub have 1: "sublist ''422'' ?msg" "sublist ''Unprocessable Entity'' ?msg"
    "sublist ''title required'' ?msg"
    unfolding s t by (simp_all only:)
  have p3: "''/api/v1/ideas/'' @ number_to_string 3 = ''/api/v1/ideas/3''"
    by (simp add: number_eval)
  have pl: "''/api/v1/ideas?page='' @ number_to_string 1 @ ''&per_page='' @ number_to_string 20
             = ''/api/v1/ideas?page=1&per_page=20''"
    by (simp add: number_eval)
  have b: "create_idea_body ''Tea stand'' None ''public''
             = [(''title'', JStr ''Tea stand''), (''visibility'', JStr ''public'')]"
    by (simp add: create_idea_body_def)
  from th have 2: "get_idea example_config ?remote 3 []
      = (Inl (ApiError ?msg), [fetch_arguments example_config ''/api/v1/ideas/3''
            \<lparr>opt_method = None, opt_body = None\<rparr>])"
    unfolding p3 using a by blast
  from th have 3: "list_ideas example_config ?remote 1 20 []
      = (Inl (ApiError ?msg), [fetch_arguments example_config ''/api/v1/ideas?page=1&per_page=20''
            \<lparr>opt_method = None, opt_body = None\<rparr>])"
    unfolding pl using a by blast
  from th have 4: "create_idea example_config ?remote ''Tea stand'' None ''public'' []
      = (Inl (ApiError ?msg), [fetch_arguments example_config ''/api/v1/ideas''
            \<lparr>opt_method = Some ''POST'',
             opt_body = Some [(''title'', JStr ''Tea stand''),
                              (''visibility'', JStr ''public'')]\<rparr>])"
    unfolding b using a by blast
  from n a 1 2 3 4 show ?thesis by (intro conjI)
qed

subsection \<open>Reading back what a server sends\<close>

lemma as_SimplifiedUser_json [simp]:
  "as_SimplifiedUser (json_of_SimplifiedUser u) = Some u"
  by (cases "avatar_path u") (simp_all add: as_SimplifiedUser_def json_of_SimplifiedUser_def)

lemma as_IdeaLine_json [simp]: "as_IdeaLine (json_of_IdeaLine l) = Some l"
  by (simp add: as_IdeaLine_def json_of_IdeaLine_def)

lemma as_Reaction_json [simp]: "as_Reaction (json_of_Reaction r) = Some r"
  by (simp add: as_Reaction_def json_of_Reaction_def)

lemma as_IdeaSummary_json [simp]: "as_IdeaSummary (json_of_IdeaSummary x) = Some x"
  by (simp add: as_IdeaSummary_def json_of_IdeaSummary_def)

lemma those_map_Some: "(\<And>x. f (g x) = Some x) \<Longrightarrow> those (map (f \<circ> g) xs) = Some xs"
  by (induction xs) simp_all

lemma as_IdeaDetail_json: "as_IdeaDetail (json_of_IdeaDetail d) = Some d"
  by (simp add: as_IdeaDetail_def json_of_IdeaDetail_def those_map_Some)

lemma as_PaginationMeta_json [simp]: "as_PaginationMeta (json_of_PaginationMeta m) = Some m"
  by (simp add: as_PaginationMeta_def json_of_PaginationMeta_def)


lemma unwrap_idea_direct: "unwrap_idea (json_of_IdeaDetail d) = Inr (json_of_IdeaDetail d)"
  by (simp add: unwrap_idea_def json_of_IdeaDetail_def)

lemma unwrap_idea_wrapped: "unwrap_idea (JObj [(''idea'', j)]) = Inr j"
  by (simp add: unwrap_idea_def)



subsection \<open>The handlers\<close>

lemma create_idea_sent:
  "snd (create_idea cfg remote t c v sent) =
     sent @ [fetch_arguments cfg ''/api/v1/ideas''
               \<lparr>opt_method = Some ''POST'', opt_body = Some (create_idea_body t c v)\<rparr>]"
proof -
  have "snd (create_idea cfg remote t c v sent) =
          snd (apiRequest cfg remote ''/api/v1/ideas''
                 \<lparr>opt_method = Some ''POST'', opt_body = Some (create_idea_body t c v)\<rparr> sent)"
    by (simp add: create_idea_def split: prod.splits sum.splits option.splits)
  then show ?thesis by (simp add: apiRequest_sent)
qed

text \<open>
  C5. \<open>create_idea\<close> sends one request, a POST to \<open>/api/v1/ideas\<close>, whose body is an
  object with the keys \<open>title\<close> and \<open>visibility\<close>, holding the arguments, and with
  the key \<open>content\<close> exactly when a content string that is not empty was given; then
  it holds that string. With no content, or the empty string, the body has no
  \<open>content\<close> key.
\<close>

theorem create_idea_request_body:
  "\<exists>req b.
      snd (create_idea cfg remote t c v sent) = sent @ [req]
    \<and> http_method req = ''POST''
    \<and> url req = base_url cfg @ ''/api/v1/ideas''
    \<and> body req = Some (JObj b)
    \<and> map fst b = [''title'', ''visibility'']
                   @ (if c = None \<or> c = Some [] then [] else [''content''])
    \<and> map_of b ''title'' = Some (JStr t)
    \<and> map_of b ''visibility'' = Some (JStr v)
    \<and> map_of b ''content'' =
        (case c of None \<Rightarrow> None | Some s \<Rightarrow> if s = [] then None else Some (JStr s))"
proof -
  let ?b = "create_idea_body t c v"
  let ?req = "fetch_arguments cfg ''/api/v1/ideas''
               \<lparr>opt_method = Some ''POST'', opt_body = Some ?b\<rparr>"
  have 1: "snd (create_idea cfg remote t c v sent) = sent @ [?req]" by (rule create_idea_sent)
  have 2: "http_method ?req = ''POST''" "url ?req = base_url cfg @ ''/api/v1/ideas''"
    "body ?req = Some (JObj ?b)"
    by (simp_all add: fetch_arguments_def)
  have 3: "map fst ?b = [''title'', ''visibility'']
                   @ (if c = None \<or> c = Some [] then [] else [''content''])"
    by (cases c) (simp_all add: create_idea_body_def Let_def)
  have 4: "map_of ?b ''title'' = Some (JStr t)" "map_of ?b ''visibility'' = Some (JStr v)"
    by (cases c; simp add: create_idea_body_def Let_def)+
  have 5: "map_of ?b ''content'' =
        (case c of None \<Rightarrow> None | Some s \<Rightarrow> if s = [] then None else Some (JStr s))"
    by (cases c) (simp_all add: create_idea_body_def Let_def)
  from 1 2 3 4 5 show ?thesis by blast
qed


theorem create_idea_request_body_witness:
  "(\<exists>req b. snd (create_idea example_config example_remote_direct ''Tea stand'' None ''public'' [])
               = [req]
            \<and> body req = Some (JObj b) \<and> map fst b = [''title'', ''visibility''])
   \<and> (\<exists>req b. snd (create_idea example_config example_remote_direct ''Tea stand'' (Some [])
                     ''public'' []) = [req]
            \<and> body req = Some (JObj b) \<and> map fst b = [''title'', ''visibility''])
   \<and> (\<exists>req b. snd (create_idea example_config example_remote_direct ''Tea stand''
                     (Some ''By the cup'') ''public'' []) = [req]
            \<and> body req = Some (JObj b) \<and> map fst b = [''title'', ''visibility'', ''content'']
            \<and> map_of b ''content'' = Some (JStr ''By the cup''))"
proof -
  note th = create_idea_request_body [where cfg = example_config
      and remote = example_remote_direct and t = "''Tea stand''" and v = "''public''"
      and sent = "[]"]
  have 1: "\<exists>req b. snd (create_idea example_config example_remote_direct ''Tea stand'' None
                     ''public'' []) = [req]
            \<and> body req = Some (JObj b) \<and> map fst b = [''title'', ''visibility'']"
    using th [where c = None] by auto
  have 2: "\<exists>req b. snd (create_idea example_config example_remote_direct ''Tea stand'' (Some [])
                     ''public'' []) = [req]
            \<and> body req = Some (JObj b) \<and> map fst b = [''title'', ''visibility'']"
    using th [where c = "Some []"] by auto
  have 3: "\<exists>req b. snd (create_idea example_config example_remote_direct ''Tea stand''
                     (Some ''By the cup'') ''public'' []) = [req]
            \<and> body req = Some (JObj b) \<and> map fst b = [''title'', ''visibility'', ''content'']
            \<and> map_of b ''content'' = Some (JStr ''By the cup'')"
    using th [where c = "Some ''By the cup''"] by auto
  from 1 2 3 show ?thesis by (intro conjI)
qed

lemma apiRequest_body_json_irrelevant_on_failure:
  "apiRequest cfg (\<lambda>req. Inr ((answer req)\<lparr>body_json := Some j\<rparr>)) path options sent =
     (if ok (answer (fetch_arguments cfg path options)) then Inr j
      else Inl (ApiError (''API request failed: ''
              @ number_to_string (status (answer (fetch_arguments cfg path options)))
              @ '' '' @ statusText (answer (fetch_arguments cfg path options))
              @ '' - '' @ body_text (answer (fetch_arguments cfg path options)))),
      sent @ [fetch_arguments cfg path options])"
  by (simp add: apiRequest_def Let_def ok_def)

text \<open>
  C3. Take two servers that answer alike, except that the body of the first is the
  object of an idea \<open>d\<close> and the body of the second is that object wrapped under the
  key \<open>idea\<close>. Then \<open>get_idea\<close> returns the same with both, and so does
  \<open>create_idea\<close>; where the answers have a success status, the result is the
  formatted detail of \<open>d\<close>, after the success line in the case of \<open>create_idea\<close>.
\<close>

theorem get_and_create_accept_both_shapes:
  assumes direct: "remote_direct = (\<lambda>req. Inr ((answer req)\<lparr>body_json := Some (json_of_IdeaDetail d)\<rparr>))"
    and wrapped: "remote_wrapped =
           (\<lambda>req. Inr ((answer req)\<lparr>body_json := Some (JObj [(''idea'', json_of_IdeaDetail d)])\<rparr>))"
  shows "get_idea cfg remote_direct i sent = get_idea cfg remote_wrapped i sent
       \<and> create_idea cfg remote_direct t c v sent = create_idea cfg remote_wrapped t c v sent
       \<and> ((\<forall>req. ok (answer req)) \<longrightarrow>
            fst (get_idea cfg remote_wrapped i sent) = Inr (fst (formatIdeaDetail d))
          \<and> fst (create_idea cfg remote_wrapped t c v sent) =
              Inr (''Idea created successfully!\<newline>\<newline>'' @ fst (formatIdeaDetail d)))"
  unfolding direct wrapped get_idea_def create_idea_def
    apiRequest_body_json_irrelevant_on_failure
  by (simp add: unwrap_idea_direct unwrap_idea_wrapped as_IdeaDetail_json)

theorem get_and_create_accept_both_shapes_witness:
  "get_idea example_config example_remote_direct 3 []
     = get_idea example_config example_remote_wrapped 3 []
   \<and> create_idea example_config example_remote_direct ''Tea stand'' None ''public'' []
     = create_idea example_config example_remote_wrapped ''Tea stand'' None ''public'' []
   \<and> fst (get_idea example_config example_remote_wrapped 3 [])
     = Inr (fst (formatIdeaDetail example_idea))
   \<and> fst (create_idea example_config example_remote_wrapped ''Tea stand'' None ''public'' [])
     = Inr (''Idea created successfully!\<newline>\<newline>'' @ fst (formatIdeaDetail example_idea))"
proof -
  let ?answer = "\<lambda>req::http_request. example_success JNull"
  have d: "example_remote_direct =
      (\<lambda>req. Inr ((?answer req)\<lparr>body_json := Some (json_of_IdeaDetail example_idea)\<rparr>))"
    by (simp add: example_remote_direct_def example_success_def)
  have w: "example_remote_wrapped =
      (\<lambda>req. Inr ((?answer req)\<lparr>body_json := Some (JObj [(''idea'', json_of_IdeaDetail example_idea)])\<rparr>))"
    by (simp add: example_remote_wrapped_def example_success_def)
  have k: "\<forall>req. ok (?answer req)" by (simp add: ok_def example_success_def)
  note th = get_and_create_accept_both_shapes [OF d w, of example_config 3 "[]" "''Tea stand''" None "''public''"]
  from th k show ?thesis by blast
qed


subsection \<open>\<open>list_ideas\<close>\<close>














subsection \<open>The schema of \<open>list_ideas\<close>\<close>

lemma page_schema_error: "page_schema a = Inl e \<Longrightarrow> e = ValidationError"
  by (auto simp: page_schema_def z_default_def z_number_def z_int_def z_positive_def
      and_then_def split: option.splits json.splits if_splits)

lemma page_schema_rejects:
  "q \<le> 0 \<or> of_int \<lfloor>q\<rfloor> \<noteq> q \<Longrightarrow> page_schema (Some (JNum q)) = Inl ValidationError"
  by (auto simp: page_schema_def z_default_def z_number_def z_int_def z_positive_def
      and_then_def)

lemma per_page_schema_rejects:
  "q > 100 \<or> q \<le> 0 \<or> of_int \<lfloor>q\<rfloor> \<noteq> q \<Longrightarrow>
   per_page_schema (Some (JNum q)) = Inl ValidationError"
  by (auto simp: per_page_schema_def z_default_def z_number_def z_int_def z_positive_def
      z_max_def and_then_def)

text \<open>
  C7. A call of \<open>list_ideas\<close> whose \<open>per_page\<close> is a number above 100, not above 0 or
  not whole, or whose \<open>page\<close> is a number not above 0 or not whole, ends with a
  validation error and the list of requests sent is unchanged: nothing goes to the
  network. A call that gives neither argument runs the handler with \<open>page = 1\<close> and
  \<open>per_page = 20\<close>, the values the schemas put in place of an absent argument.
\<close>

theorem list_ideas_schema_rejects_out_of_range:
  "(map_of args ''per_page'' = Some (JNum q) \<and> (q > 100 \<or> q \<le> 0 \<or> of_int \<lfloor>q\<rfloor> \<noteq> q)
      \<longrightarrow> list_ideas_tool cfg remote args sent = (Inl ValidationError, sent))
   \<and> (map_of args ''page'' = Some (JNum q) \<and> (q \<le> 0 \<or> of_int \<lfloor>q\<rfloor> \<noteq> q)
      \<longrightarrow> list_ideas_tool cfg remote args sent = (Inl ValidationError, sent))
   \<and> (map_of args ''page'' = None \<and> map_of args ''per_page'' = None
      \<longrightarrow> list_ideas_tool cfg remote args sent = list_ideas cfg remote 1 20 sent)
   \<and> page_schema None = Inr 1 \<and> per_page_schema None = Inr 20"
proof (intro conjI impI)
  assume a: "map_of args ''per_page'' = Some (JNum q)
             \<and> (q > 100 \<or> q \<le> 0 \<or> of_int \<lfloor>q\<rfloor> \<noteq> q)"
  then have "per_page_schema (map_of args ''per_page'') = Inl ValidationError"
    by (simp add: per_page_schema_rejects)
  then show "list_ideas_tool cfg remote args sent = (Inl ValidationError, sent)"
    by (auto simp: list_ideas_tool_def split: sum.splits dest: page_schema_error)
next
  assume a: "map_of args ''page'' = Some (JNum q) \<and> (q \<le> 0 \<or> of_int \<lfloor>q\<rfloor> \<noteq> q)"
  then have "page_schema (map_of args ''page'') = Inl ValidationError"
    by (simp add: page_schema_rejects)
  then show "list_ideas_tool cfg remote args sent = (Inl ValidationError, sent)"
    by (simp add: list_ideas_tool_def)
next
  assume "map_of args ''page'' = None \<and> map_of args ''per_page'' = None"
  then show "list_ideas_tool cfg remote args sent = list_ideas cfg remote 1 20 sent"
    by (simp add: list_ideas_tool_def page_schema_def per_page_schema_def z_default_def)
next
  show "page_schema None = Inr 1" by (simp add: page_schema_def z_default_def)
  show "per_page_schema None = Inr 20" by (simp add: per_page_schema_def z_default_def)
qed

theorem list_ideas_schema_rejects_out_of_range_witness:
  "list_ideas_tool example_config example_remote_list [(''per_page'', JNum 101)] []
     = (Inl ValidationError, [])
   \<and> list_ideas_tool example_config example_remote_list [(''per_page'', JNum 0)] []
     = (Inl ValidationError, [])
   \<and> list_ideas_tool example_config example_remote_list [(''page'', JNum 0)] []
     = (Inl ValidationError, [])
   \<and> list_ideas_tool example_config example_remote_list [(''page'', JNum (3 / 2))] []
     = (Inl ValidationError, [])
   \<and> list_ideas_tool example_config example_remote_list [] []
     = list_ideas example_config example_remote_list 1 20 []"
proof -
  note th = list_ideas_schema_rejects_out_of_range
    [where cfg = example_config and remote = example_remote_list and sent = "[]"]
  have 1: "list_ideas_tool example_config example_remote_list [(''per_page'', JNum 101)] []
     = (Inl ValidationError, [])"
    using th [where args = "[(''per_page'', JNum 101)]" and q = 101] by simp
  have 2: "list_ideas_tool example_config example_remote_list [(''per_page'', JNum 0)] []
     = (Inl ValidationError, [])"
    using th [where args = "[(''per_page'', JNum 0)]" and q = 0] by simp
  have 3: "list_ideas_tool example_config example_remote_list [(''page'', JNum 0)] []
     = (Inl ValidationError, [])"
    using th [where args = "[(''page'', JNum 0)]" and q = 0] by simp
  have f: "rat_of_int \<lfloor>3 / 2 :: rat\<rfloor> \<noteq> 3 / 2" by code_simp
  have 4: "list_ideas_tool example_config example_remote_list [(''page'', JNum (3 / 2))] []
     = (Inl ValidationError, [])"
    using th [where args = "[(''page'', JNum (3 / 2))]" and q = "3 / 2"] f by simp
  have 5: "list_ideas_tool example_config example_remote_list [] []
     = list_ideas example_config example_remote_list 1 20 []"
    using th [where args = "[]"] by simp
  from 1 2 3 4 5 show ?thesis by (intro conjI)
qed

end
